theory Spec2Isabelle
  imports Main
begin

section \<open>MultiStepper.cpp: the state of the controller and of the board\<close>

text \<open>
  The class keeps one heap array per attribute (\<^verbatim>\<open>new int[number_of_motors]\<close>), indexed
  by the motor. An array is modelled by its cells: the function from an index to the
  \<^verbatim>\<open>int\<close> stored at that offset. The source never checks an index, and C++ gives an
  access outside the allocation no meaning; the model keeps going as the store or load
  at that offset would, every array in an index space of its own, and records the
  allocated length in \<open>allocated\<close> so that a statement can say whether an index was in
  range. The integers are unbounded (\<open>int\<close>). The width of \<^verbatim>\<open>int\<close> shows at one
  place, \<^verbatim>\<open>abs\<close> of the least \<^verbatim>\<open>int\<close> in \<^verbatim>\<open>step\<close>, and the facts about \<^verbatim>\<open>step\<close>
  that need the counters are stated for entries above it.

  The board (Arduino.h) is part of the state: the calls of \<^verbatim>\<open>pinMode\<close> and
  \<^verbatim>\<open>digitalWrite\<close> are logged in order, and \<^verbatim>\<open>millis()\<close> answers its \<open>n\<close>-th call
  with \<open>clock n\<close>.
\<close>

datatype level = LOW | HIGH

datatype pin_mode = INPUT | OUTPUT

type_synonym cells = "int \<Rightarrow> int"

record stepper_state =
  allocated :: int
  step_number :: cells
  speed :: cells
  direction :: cells
  last_step_time :: cells
  number_of_steps :: cells
  step_delay :: cells
  motor_pin_1 :: cells
  motor_pin_2 :: cells
  motor_pin_3 :: cells
  motor_pin_4 :: cells
  pin_count :: cells
  motor_count :: int
  pin_modes :: "(int \<times> pin_mode) list"
  pin_writes :: "(int \<times> level) list"
  clock :: "nat \<Rightarrow> int"
  clock_reads :: nat

definition pinMode :: "int \<Rightarrow> pin_mode \<Rightarrow> stepper_state \<Rightarrow> stepper_state" where
  "pinMode pin m st = st\<lparr>pin_modes := pin_modes st @ [(pin, m)]\<rparr>"

definition digitalWrite :: "int \<Rightarrow> level \<Rightarrow> stepper_state \<Rightarrow> stepper_state" where
  "digitalWrite pin v st = st\<lparr>pin_writes := pin_writes st @ [(pin, v)]\<rparr>"

definition millis :: "stepper_state \<Rightarrow> int \<times> stepper_state" where
  "millis st = (clock st (clock_reads st), st\<lparr>clock_reads := Suc (clock_reads st)\<rparr>)"

text \<open>
  C++ division and remainder truncate towards zero; division by zero has no meaning
  there and is a fault of the model.
\<close>

datatype fault = DivisionByZero

definition c_div :: "int \<Rightarrow> int \<Rightarrow> int" where
  "c_div a b = (if (a < 0) = (b < 0) then \<bar>a\<bar> div \<bar>b\<bar> else - (\<bar>a\<bar> div \<bar>b\<bar>))"

definition c_rem :: "int \<Rightarrow> int \<Rightarrow> int" where
  "c_rem a b = (if a < 0 then - (\<bar>a\<bar> mod \<bar>b\<bar>) else \<bar>a\<bar> mod \<bar>b\<bar>)"

section \<open>Constructor and registration\<close>

text \<open>
  \<^verbatim>\<open>MultiStepper(int number_of_motors)\<close> allocates the eleven arrays and sets
  \<^verbatim>\<open>motor_count = 0\<close>. \<^verbatim>\<open>new int[n]\<close> initialises nothing: the cells keep whatever
  the memory held, which is the argument \<open>raw\<close>.
\<close>

definition MultiStepper :: "stepper_state \<Rightarrow> int \<Rightarrow> stepper_state" where
  "MultiStepper raw number_of_motors = raw\<lparr>allocated := number_of_motors, motor_count := 0\<rparr>"

text \<open>
  The two overloads of \<^verbatim>\<open>addMotor\<close> (lines 78-103 and 109-134). Neither compares
  \<^verbatim>\<open>motor_count\<close> with anything, neither writes \<^verbatim>\<open>step_delay\<close>, and neither returns a
  value.
\<close>

definition addMotor2 :: "int \<Rightarrow> int \<Rightarrow> int \<Rightarrow> stepper_state \<Rightarrow> stepper_state" where
  "addMotor2 nsteps pin_1 pin_2 st =
    (let i = motor_count st;
         s1 = st\<lparr>step_number := (step_number st)(i := 0)\<rparr>;
         s2 = s1\<lparr>speed := (speed s1)(i := 0)\<rparr>;
         s3 = s2\<lparr>direction := (direction s2)(i := 0)\<rparr>;
         s4 = s3\<lparr>last_step_time := (last_step_time s3)(i := 0)\<rparr>;
         s5 = s4\<lparr>number_of_steps := (number_of_steps s4)(i := nsteps)\<rparr>;
         s6 = s5\<lparr>motor_pin_1 := (motor_pin_1 s5)(i := pin_1)\<rparr>;
         s7 = s6\<lparr>motor_pin_2 := (motor_pin_2 s6)(i := pin_2)\<rparr>;
         s8 = pinMode (motor_pin_1 s7 i) OUTPUT s7;
         s9 = pinMode (motor_pin_2 s8 i) OUTPUT s8;
         s10 = s9\<lparr>motor_pin_3 := (motor_pin_3 s9)(i := 0)\<rparr>;
         s11 = s10\<lparr>motor_pin_4 := (motor_pin_4 s10)(i := 0)\<rparr>;
         s12 = s11\<lparr>pin_count := (pin_count s11)(i := 2)\<rparr>
     in s12\<lparr>motor_count := motor_count s12 + 1\<rparr>)"

definition addMotor4 ::
  "int \<Rightarrow> int \<Rightarrow> int \<Rightarrow> int \<Rightarrow> int \<Rightarrow> stepper_state \<Rightarrow> stepper_state" where
  "addMotor4 nsteps pin_1 pin_2 pin_3 pin_4 st =
    (let i = motor_count st;
         s1 = st\<lparr>step_number := (step_number st)(i := 0)\<rparr>;
         s2 = s1\<lparr>speed := (speed s1)(i := 0)\<rparr>;
         s3 = s2\<lparr>direction := (direction s2)(i := 0)\<rparr>;
         s4 = s3\<lparr>last_step_time := (last_step_time s3)(i := 0)\<rparr>;
         s5 = s4\<lparr>number_of_steps := (number_of_steps s4)(i := nsteps)\<rparr>;
         s6 = s5\<lparr>motor_pin_1 := (motor_pin_1 s5)(i := pin_1)\<rparr>;
         s7 = s6\<lparr>motor_pin_2 := (motor_pin_2 s6)(i := pin_2)\<rparr>;
         s8 = s7\<lparr>motor_pin_3 := (motor_pin_3 s7)(i := pin_3)\<rparr>;
         s9 = s8\<lparr>motor_pin_4 := (motor_pin_4 s8)(i := pin_4)\<rparr>;
         s10 = pinMode (motor_pin_1 s9 i) OUTPUT s9;
         s11 = pinMode (motor_pin_2 s10 i) OUTPUT s10;
         s12 = pinMode (motor_pin_3 s11 i) OUTPUT s11;
         s13 = pinMode (motor_pin_4 s12 i) OUTPUT s12;
         s14 = s13\<lparr>pin_count := (pin_count s13)(i := 4)\<rparr>
     in s14\<lparr>motor_count := motor_count s14 + 1\<rparr>)"

section \<open>The step pattern\<close>

text \<open>
  \<^verbatim>\<open>stepMotor\<close> (lines 202-252): two \<^verbatim>\<open>if\<close> statements in sequence, each holding a
  \<^verbatim>\<open>switch\<close> on \<^verbatim>\<open>thisStep\<close> with the cases 0 to 3 and no \<^verbatim>\<open>default\<close>.
\<close>

definition stepMotor :: "int \<Rightarrow> int \<Rightarrow> stepper_state \<Rightarrow> stepper_state" where
  "stepMotor thisStep motor st =
    (let s1 =
       (if pin_count st motor = 2 then
          (if thisStep = 0 then
             digitalWrite (motor_pin_2 st motor) HIGH (digitalWrite (motor_pin_1 st motor) LOW st)
           else if thisStep = 1 then
             digitalWrite (motor_pin_2 st motor) HIGH (digitalWrite (motor_pin_1 st motor) HIGH st)
           else if thisStep = 2 then
             digitalWrite (motor_pin_2 st motor) LOW (digitalWrite (motor_pin_1 st motor) HIGH st)
           else if thisStep = 3 then
             digitalWrite (motor_pin_2 st motor) LOW (digitalWrite (motor_pin_1 st motor) LOW st)
           else st)
        else st)
     in
       (if pin_count s1 motor = 4 then
          (if thisStep = 0 then
             digitalWrite (motor_pin_4 s1 motor) LOW
               (digitalWrite (motor_pin_3 s1 motor) HIGH
                 (digitalWrite (motor_pin_2 s1 motor) LOW
                   (digitalWrite (motor_pin_1 s1 motor) HIGH s1)))
           else if thisStep = 1 then
             digitalWrite (motor_pin_4 s1 motor) LOW
               (digitalWrite (motor_pin_3 s1 motor) HIGH
                 (digitalWrite (motor_pin_2 s1 motor) HIGH
                   (digitalWrite (motor_pin_1 s1 motor) LOW s1)))
           else if thisStep = 2 then
             digitalWrite (motor_pin_4 s1 motor) HIGH
               (digitalWrite (motor_pin_3 s1 motor) LOW
                 (digitalWrite (motor_pin_2 s1 motor) HIGH
                   (digitalWrite (motor_pin_1 s1 motor) LOW s1)))
           else if thisStep = 3 then
             digitalWrite (motor_pin_4 s1 motor) HIGH
               (digitalWrite (motor_pin_3 s1 motor) LOW
                 (digitalWrite (motor_pin_2 s1 motor) LOW
                   (digitalWrite (motor_pin_1 s1 motor) HIGH s1)))
           else s1)
        else s1))"

section \<open>Speed\<close>

text \<open>
  \<^verbatim>\<open>setSpeed(long whatSpeed, int motor)\<close> (lines 140-143) is the one statement
  \<^verbatim>\<open>this->step_delay[i] = 60L * 1000L / this->number_of_steps / whatSpeed;\<close>.
  No \<^verbatim>\<open>i\<close> is in scope and \<^verbatim>\<open>number_of_steps\<close> is the array itself. Here, and at the
  three places of \<^verbatim>\<open>step\<close> that use \<^verbatim>\<open>this->direction\<close> and \<^verbatim>\<open>this->step_number\<close>
  without a subscript, the statement is read with the one motor index in scope,
  \<^verbatim>\<open>motor\<close>; everything else of the statement is kept: two divisions in a row, no
  product, and no test of \<^verbatim>\<open>whatSpeed\<close>.
\<close>

definition setSpeed :: "int \<Rightarrow> int \<Rightarrow> stepper_state \<Rightarrow> fault + stepper_state" where
  "setSpeed whatSpeed motor st =
    (if number_of_steps st motor = 0 \<or> whatSpeed = 0 then Inl DivisionByZero
     else Inr (st\<lparr>step_delay := (step_delay st)
                 (motor := c_div (c_div (60 * 1000) (number_of_steps st motor)) whatSpeed)\<rparr>))"

section \<open>Moving\<close>

text \<open>
  \<^verbatim>\<open>stepsLeft\<close> (lines 146-153): the largest element, or 0 when none is positive.
\<close>

fun stepsLeft_from :: "int \<Rightarrow> int list \<Rightarrow> int" where
  "stepsLeft_from max_steps_left [] = max_steps_left"
| "stepsLeft_from max_steps_left (steps # rest) =
     stepsLeft_from (if steps > max_steps_left then steps else max_steps_left) rest"

definition stepsLeft :: "int list \<Rightarrow> int" where
  "stepsLeft steps_left = stepsLeft_from 0 steps_left"

text \<open>
  \<^verbatim>\<open>step\<close> (lines 159-197). The local array \<^verbatim>\<open>steps_left\<close> is
  \<^verbatim>\<open>new int[this->motor_count]\<close>, again uninitialised: its cells start as \<open>fresh\<close>.
  The first loop (lines 165-174) walks the argument with the counter \<^verbatim>\<open>i\<close>. The
  local \<^verbatim>\<open>max_steps_left\<close> it also maintains is never read and is left out.
  \<^verbatim>\<open>abs(steps)\<close> is the absolute value for every \<^verbatim>\<open>int\<close> but the least one, which
  has no positive counterpart: there C++ leaves \<^verbatim>\<open>abs\<close> undefined and the counter stays
  negative. An \<^verbatim>\<open>int\<close> has 16 bits or more, so an entry above -32768 is above the least
  \<^verbatim>\<open>int\<close> whatever the width; the facts that read the counters assume that much.
\<close>

fun step_init :: "int list \<Rightarrow> int \<Rightarrow> cells \<Rightarrow> stepper_state \<Rightarrow> cells \<times> stepper_state" where
  "step_init [] i steps_left st = (steps_left, st)"
| "step_init (steps # rest) i steps_left st =
    (let l1 = steps_left(i := \<bar>steps\<bar>);
         s1 = (if steps > 0 then st\<lparr>direction := (direction st)(i := 1)\<rparr> else st);
         s2 = (if steps < 0 then s1\<lparr>direction := (direction s1)(i := 0)\<rparr> else s1)
     in step_init rest (i + 1) l1 s2)"

text \<open>
  The body of the inner loop (lines 179-194) for one value of the loop variable
  \<^verbatim>\<open>motor\<close>. \<^verbatim>\<open>millis()\<close> is called twice. The tests
  \<^verbatim>\<open>this->direction == 1\<close> and \<^verbatim>\<open>this->step_number == this->number_of_steps[motor]\<close>
  and the statement \<^verbatim>\<open>this->step_number--\<close> name the arrays without a subscript and
  are read at \<^verbatim>\<open>[motor]\<close>, as the statements next to them are written. Taken as
  written, the two tests compare a pointer with a number and line 191 moves the array
  pointer instead of changing a cell, so the step indexes this body produces are those
  of the reading, and no fact below states one. The facts below use of this body only
  what holds under either reading: it leaves \<^verbatim>\<open>motor_count\<close>, \<^verbatim>\<open>step_delay\<close> and the
  local \<^verbatim>\<open>steps_left\<close> alone. The test of line 179 is unsigned arithmetic in the code
  and plain integer arithmetic here; no fact below depends on its outcome.
\<close>

definition step_motor_due :: "int \<Rightarrow> stepper_state \<Rightarrow> stepper_state" where
  "step_motor_due motor st =
    (case millis st of (t1, s1) \<Rightarrow>
      if t1 - last_step_time s1 motor \<ge> step_delay s1 motor then
        (case millis s1 of (t2, s2) \<Rightarrow>
          (let s3 = s2\<lparr>last_step_time := (last_step_time s2)(motor := t2)\<rparr>;
               s4 =
                 (if direction s3 motor = 1 then
                    (let u = s3\<lparr>step_number := (step_number s3)(motor := step_number s3 motor + 1)\<rparr>
                     in if step_number u motor = number_of_steps u motor
                        then u\<lparr>step_number := (step_number u)(motor := 0)\<rparr> else u)
                  else
                    (let u = (if step_number s3 motor = 0
                              then s3\<lparr>step_number := (step_number s3)(motor := number_of_steps s3 motor)\<rparr>
                              else s3)
                     in u\<lparr>step_number := (step_number u)(motor := step_number u motor - 1)\<rparr>))
           in stepMotor (c_rem (step_number s4 motor) 4) motor s4))
      else s1)"

text \<open>
  The inner loop is \<^verbatim>\<open>for (int motor : steps_to_move)\<close>: \<^verbatim>\<open>motor\<close> takes the
  elements of the argument, the step counts, one after the other.
\<close>

fun step_pass :: "int list \<Rightarrow> stepper_state \<Rightarrow> stepper_state" where
  "step_pass [] st = st"
| "step_pass (motor # rest) st = step_pass rest (step_motor_due motor st)"

text \<open>
  The outer loop (line 177) runs while \<^verbatim>\<open>stepsLeft(steps_left) > 0\<close>, over the
  \<^verbatim>\<open>motor_count\<close> elements of the local array. It may run forever: not returning is
  the value \<open>None\<close>.
\<close>

definition elements :: "cells \<Rightarrow> int \<Rightarrow> int list" where
  "elements a n = map a [0..n - 1]"

partial_function (option)
  step_loop :: "cells \<Rightarrow> int list \<Rightarrow> stepper_state \<Rightarrow> stepper_state option" where
  "step_loop steps_left steps_to_move st =
    (if stepsLeft (elements steps_left (motor_count st)) > 0
     then step_loop steps_left steps_to_move (step_pass steps_to_move st)
     else Some st)"

definition step :: "cells \<Rightarrow> int list \<Rightarrow> stepper_state \<Rightarrow> stepper_state option" where
  "step fresh steps_to_move st =
    (case step_init steps_to_move 0 fresh st of
       (steps_left, s1) \<Rightarrow> step_loop steps_left steps_to_move s1)"

section \<open>States used as concrete inputs\<close>

definition blank :: stepper_state where
  "blank = \<lparr>allocated = 0, step_number = (\<lambda>_. 0), speed = (\<lambda>_. 0), direction = (\<lambda>_. 0),
     last_step_time = (\<lambda>_. 0), number_of_steps = (\<lambda>_. 0), step_delay = (\<lambda>_. 0),
     motor_pin_1 = (\<lambda>_. 0), motor_pin_2 = (\<lambda>_. 0), motor_pin_3 = (\<lambda>_. 0),
     motor_pin_4 = (\<lambda>_. 0), pin_count = (\<lambda>_. 0), motor_count = 0,
     pin_modes = [], pin_writes = [], clock = (\<lambda>n. int n), clock_reads = 0\<rparr>"

definition zero_cells :: cells where
  "zero_cells = (\<lambda>_. 0)"

text \<open>Memory that holds 7 where \<^verbatim>\<open>step_delay\<close> will be allocated.\<close>

definition raw7 :: stepper_state where
  "raw7 = blank\<lparr>step_delay := (\<lambda>_. 7)\<rparr>"

text \<open>One two-wire motor on pins 8 and 9, in a bank allocated for one.\<close>

definition bank_2wire :: stepper_state where
  "bank_2wire = addMotor2 200 8 9 (MultiStepper blank 1)"

text \<open>One four-wire motor on pins 4 to 7, in a bank allocated for one.\<close>

definition bank_4wire :: stepper_state where
  "bank_4wire = addMotor4 200 4 5 6 7 (MultiStepper blank 1)"

text \<open>A two-wire motor (index 0) and a four-wire motor (index 1), in a bank allocated for two.\<close>

definition bank_two :: stepper_state where
  "bank_two = addMotor4 200 4 5 6 7 (addMotor2 200 8 9 (MultiStepper blank 2))"

section \<open>Facts about the constructor and registration\<close>

lemma MultiStepper_simps:
  "motor_count (MultiStepper raw n) = 0"
  "allocated (MultiStepper raw n) = n"
  "step_delay (MultiStepper raw n) = step_delay raw"
  "direction (MultiStepper raw n) = direction raw"
  "step_number (MultiStepper raw n) = step_number raw"
  "number_of_steps (MultiStepper raw n) = number_of_steps raw"
  "last_step_time (MultiStepper raw n) = last_step_time raw"
  "pin_writes (MultiStepper raw n) = pin_writes raw"
  "clock (MultiStepper raw n) = clock raw"
  "clock_reads (MultiStepper raw n) = clock_reads raw"
  by (simp_all add: MultiStepper_def)

lemma addMotor2_simps:
  "motor_count (addMotor2 n a b st) = motor_count st + 1"
  "allocated (addMotor2 n a b st) = allocated st"
  "step_delay (addMotor2 n a b st) = step_delay st"
  "step_number (addMotor2 n a b st) = (step_number st)(motor_count st := 0)"
  "speed (addMotor2 n a b st) = (speed st)(motor_count st := 0)"
  "direction (addMotor2 n a b st) = (direction st)(motor_count st := 0)"
  "last_step_time (addMotor2 n a b st) = (last_step_time st)(motor_count st := 0)"
  "number_of_steps (addMotor2 n a b st) = (number_of_steps st)(motor_count st := n)"
  "motor_pin_1 (addMotor2 n a b st) = (motor_pin_1 st)(motor_count st := a)"
  "motor_pin_2 (addMotor2 n a b st) = (motor_pin_2 st)(motor_count st := b)"
  "motor_pin_3 (addMotor2 n a b st) = (motor_pin_3 st)(motor_count st := 0)"
  "motor_pin_4 (addMotor2 n a b st) = (motor_pin_4 st)(motor_count st := 0)"
  "pin_count (addMotor2 n a b st) = (pin_count st)(motor_count st := 2)"
  "pin_modes (addMotor2 n a b st) = pin_modes st @ [(a, OUTPUT), (b, OUTPUT)]"
  "pin_writes (addMotor2 n a b st) = pin_writes st"
  "clock (addMotor2 n a b st) = clock st"
  "clock_reads (addMotor2 n a b st) = clock_reads st"
  by (simp_all add: addMotor2_def pinMode_def Let_def)

lemma addMotor4_simps:
  "motor_count (addMotor4 n a b c d st) = motor_count st + 1"
  "allocated (addMotor4 n a b c d st) = allocated st"
  "step_delay (addMotor4 n a b c d st) = step_delay st"
  "step_number (addMotor4 n a b c d st) = (step_number st)(motor_count st := 0)"
  "speed (addMotor4 n a b c d st) = (speed st)(motor_count st := 0)"
  "direction (addMotor4 n a b c d st) = (direction st)(motor_count st := 0)"
  "last_step_time (addMotor4 n a b c d st) = (last_step_time st)(motor_count st := 0)"
  "number_of_steps (addMotor4 n a b c d st) = (number_of_steps st)(motor_count st := n)"
  "motor_pin_1 (addMotor4 n a b c d st) = (motor_pin_1 st)(motor_count st := a)"
  "motor_pin_2 (addMotor4 n a b c d st) = (motor_pin_2 st)(motor_count st := b)"
  "motor_pin_3 (addMotor4 n a b c d st) = (motor_pin_3 st)(motor_count st := c)"
  "motor_pin_4 (addMotor4 n a b c d st) = (motor_pin_4 st)(motor_count st := d)"
  "pin_count (addMotor4 n a b c d st) = (pin_count st)(motor_count st := 4)"
  "pin_modes (addMotor4 n a b c d st) =
     pin_modes st @ [(a, OUTPUT), (b, OUTPUT), (c, OUTPUT), (d, OUTPUT)]"
  "pin_writes (addMotor4 n a b c d st) = pin_writes st"
  "clock (addMotor4 n a b c d st) = clock st"
  "clock_reads (addMotor4 n a b c d st) = clock_reads st"
  by (simp_all add: addMotor4_def pinMode_def Let_def)

lemma bank_2wire_fields:
  "pin_count bank_2wire 0 = 2" "motor_pin_1 bank_2wire 0 = 8" "motor_pin_2 bank_2wire 0 = 9"
  "pin_writes bank_2wire = []" "motor_count bank_2wire = 1" "allocated bank_2wire = 1"
  "number_of_steps bank_2wire 0 = 200" "direction bank_2wire 0 = 0"
  "step_number bank_2wire 0 = 0"
  by (simp_all add: bank_2wire_def addMotor2_simps MultiStepper_simps blank_def)

lemma bank_4wire_fields:
  "pin_count bank_4wire 0 = 4" "motor_pin_1 bank_4wire 0 = 4" "motor_pin_2 bank_4wire 0 = 5"
  "motor_pin_3 bank_4wire 0 = 6" "motor_pin_4 bank_4wire 0 = 7"
  "pin_writes bank_4wire = []" "motor_count bank_4wire = 1"
  by (simp_all add: bank_4wire_def addMotor4_simps MultiStepper_simps blank_def)

lemma bank_two_fields:
  "motor_count bank_two = 2" "allocated bank_two = 2"
  "number_of_steps bank_two 0 = 200" "number_of_steps bank_two 1 = 200"
  "pin_writes bank_two = []"
  by (simp_all add: bank_two_def addMotor2_simps addMotor4_simps MultiStepper_simps blank_def)

text \<open>
  C4, as the code has it. Neither overload of \<^verbatim>\<open>addMotor\<close> looks at the allocated
  length or reports anything: whatever the occupied count is, a registration writes the
  block at index \<^verbatim>\<open>motor_count\<close> and increases \<^verbatim>\<open>motor_count\<close> by exactly one, and
  the allocated length stays what the constructor was given. The occupied count is
  therefore not bounded by the capacity.
\<close>

theorem addMotor_counts_unconditionally:
  "motor_count (addMotor2 n a b st) = motor_count st + 1
   \<and> motor_count (addMotor4 n a b c d st) = motor_count st + 1
   \<and> allocated (addMotor2 n a b st) = allocated st
   \<and> allocated (addMotor4 n a b c d st) = allocated st"
  by (simp add: addMotor2_simps addMotor4_simps)

text \<open>
  A bank allocated for one motor that holds one motor takes a second registration of
  either kind: the count becomes 2, above the allocated length 1.
\<close>

theorem addMotor_beyond_capacity:
  "motor_count bank_2wire = allocated bank_2wire
   \<and> allocated (addMotor2 200 10 11 bank_2wire) = 1
   \<and> motor_count (addMotor2 200 10 11 bank_2wire) = 2
   \<and> allocated (addMotor4 200 10 11 12 13 bank_2wire) = 1
   \<and> motor_count (addMotor4 200 10 11 12 13 bank_2wire) = 2"
  by (simp add: bank_2wire_fields addMotor2_simps addMotor4_simps)

text \<open>
  C9, as the code has it. A registration of either kind writes, at the index
  \<^verbatim>\<open>motor_count\<close> had on entry, \<^verbatim>\<open>step_number\<close> = 0, \<^verbatim>\<open>speed\<close> = 0,
  \<^verbatim>\<open>direction\<close> = 0 and \<^verbatim>\<open>last_step_time\<close> = 0. The direction value 0 is the one
  \<^verbatim>\<open>step\<close> assigns for a negative step count (1 is the one for a positive count), and
  \<^verbatim>\<open>step_delay\<close> is not written at all: the interval keeps whatever the array held.
\<close>

theorem addMotor_block:
  "step_number (addMotor2 n a b st) (motor_count st) = 0
   \<and> speed (addMotor2 n a b st) (motor_count st) = 0
   \<and> direction (addMotor2 n a b st) (motor_count st) = 0
   \<and> last_step_time (addMotor2 n a b st) (motor_count st) = 0
   \<and> step_delay (addMotor2 n a b st) = step_delay st
   \<and> step_number (addMotor4 n a b c d st) (motor_count st) = 0
   \<and> speed (addMotor4 n a b c d st) (motor_count st) = 0
   \<and> direction (addMotor4 n a b c d st) (motor_count st) = 0
   \<and> last_step_time (addMotor4 n a b c d st) (motor_count st) = 0
   \<and> step_delay (addMotor4 n a b c d st) = step_delay st
   \<and> direction (snd (step_init [steps] i fresh st)) i =
        (if steps > 0 then 1 else if steps < 0 then 0 else direction st i)"
  by (simp add: addMotor2_simps addMotor4_simps Let_def)

text \<open>
  On memory that held 7 in the \<^verbatim>\<open>step_delay\<close> array the new block's interval is 7, not
  0. The new block's direction is 0, where a move by +1 sets 1 and a move by -1 sets 0.
\<close>

theorem addMotor_block_counterexample:
  "step_delay (addMotor2 200 8 9 (MultiStepper raw7 1)) 0 = 7
   \<and> step_delay (addMotor4 200 4 5 6 7 (MultiStepper raw7 1)) 0 = 7
   \<and> direction bank_2wire 0 = 0
   \<and> direction (snd (step_init [1] 0 zero_cells bank_2wire)) 0 = 1
   \<and> direction (snd (step_init [-1] 0 zero_cells bank_2wire)) 0 = 0"
  by (simp add: bank_2wire_def addMotor2_simps addMotor4_simps MultiStepper_simps raw7_def
      Let_def blank_def)

section \<open>Facts about the step pattern\<close>

lemma pin_count_digitalWrite [simp]: "pin_count (digitalWrite p v st) = pin_count st"
  by (simp add: digitalWrite_def)

lemma pin_writes_digitalWrite [simp]:
  "pin_writes (digitalWrite p v st) = pin_writes st @ [(p, v)]"
  by (simp add: digitalWrite_def)

lemma motor_pins_digitalWrite [simp]:
  "motor_pin_1 (digitalWrite p v st) = motor_pin_1 st"
  "motor_pin_2 (digitalWrite p v st) = motor_pin_2 st"
  "motor_pin_3 (digitalWrite p v st) = motor_pin_3 st"
  "motor_pin_4 (digitalWrite p v st) = motor_pin_4 st"
  by (simp_all add: digitalWrite_def)

text \<open>
  C7. For a motor whose recorded pin count is 2 (which is what the two-wire
  registration records), \<^verbatim>\<open>stepMotor\<close> appends exactly two writes, to
  \<^verbatim>\<open>motor_pin_1\<close> and then to \<^verbatim>\<open>motor_pin_2\<close>, with the levels (LOW, HIGH) at phase 0,
  (HIGH, HIGH) at phase 1, (HIGH, LOW) at phase 2 and (LOW, LOW) at phase 3.
\<close>

theorem stepMotor_two_wire_table:
  assumes "pin_count st motor = 2"
  shows "pin_writes (stepMotor 0 motor st) =
           pin_writes st @ [(motor_pin_1 st motor, LOW), (motor_pin_2 st motor, HIGH)]
       \<and> pin_writes (stepMotor 1 motor st) =
           pin_writes st @ [(motor_pin_1 st motor, HIGH), (motor_pin_2 st motor, HIGH)]
       \<and> pin_writes (stepMotor 2 motor st) =
           pin_writes st @ [(motor_pin_1 st motor, HIGH), (motor_pin_2 st motor, LOW)]
       \<and> pin_writes (stepMotor 3 motor st) =
           pin_writes st @ [(motor_pin_1 st motor, LOW), (motor_pin_2 st motor, LOW)]"
  using assms by (simp add: stepMotor_def Let_def)

theorem stepMotor_two_wire_table_witness:
  "pin_count bank_2wire 0 = 2
   \<and> pin_writes (stepMotor 0 0 bank_2wire) = [(8, LOW), (9, HIGH)]
   \<and> pin_writes (stepMotor 1 0 bank_2wire) = [(8, HIGH), (9, HIGH)]
   \<and> pin_writes (stepMotor 2 0 bank_2wire) = [(8, HIGH), (9, LOW)]
   \<and> pin_writes (stepMotor 3 0 bank_2wire) = [(8, LOW), (9, LOW)]"
  using stepMotor_two_wire_table [of bank_2wire 0] by (simp add: bank_2wire_fields)

text \<open>
  C8. For a motor whose recorded pin count is 4 (which is what the four-wire
  registration records), \<^verbatim>\<open>stepMotor\<close> appends exactly four writes, to
  \<^verbatim>\<open>motor_pin_1\<close>, \<^verbatim>\<open>motor_pin_2\<close>, \<^verbatim>\<open>motor_pin_3\<close> and \<^verbatim>\<open>motor_pin_4\<close> in this order,
  with the levels (HIGH, LOW, HIGH, LOW) at phase 0, (LOW, HIGH, HIGH, LOW) at phase 1,
  (LOW, HIGH, LOW, HIGH) at phase 2 and (HIGH, LOW, LOW, HIGH) at phase 3.
\<close>

theorem stepMotor_four_wire_table:
  assumes "pin_count st motor = 4"
  shows "pin_writes (stepMotor 0 motor st) =
           pin_writes st @ [(motor_pin_1 st motor, HIGH), (motor_pin_2 st motor, LOW),
                            (motor_pin_3 st motor, HIGH), (motor_pin_4 st motor, LOW)]
       \<and> pin_writes (stepMotor 1 motor st) =
           pin_writes st @ [(motor_pin_1 st motor, LOW), (motor_pin_2 st motor, HIGH),
                            (motor_pin_3 st motor, HIGH), (motor_pin_4 st motor, LOW)]
       \<and> pin_writes (stepMotor 2 motor st) =
           pin_writes st @ [(motor_pin_1 st motor, LOW), (motor_pin_2 st motor, HIGH),
                            (motor_pin_3 st motor, LOW), (motor_pin_4 st motor, HIGH)]
       \<and> pin_writes (stepMotor 3 motor st) =
           pin_writes st @ [(motor_pin_1 st motor, HIGH), (motor_pin_2 st motor, LOW),
                            (motor_pin_3 st motor, LOW), (motor_pin_4 st motor, HIGH)]"
  using assms by (simp add: stepMotor_def Let_def)

theorem stepMotor_four_wire_table_witness:
  "pin_count bank_4wire 0 = 4
   \<and> pin_writes (stepMotor 0 0 bank_4wire) = [(4, HIGH), (5, LOW), (6, HIGH), (7, LOW)]
   \<and> pin_writes (stepMotor 1 0 bank_4wire) = [(4, LOW), (5, HIGH), (6, HIGH), (7, LOW)]
   \<and> pin_writes (stepMotor 2 0 bank_4wire) = [(4, LOW), (5, HIGH), (6, LOW), (7, HIGH)]
   \<and> pin_writes (stepMotor 3 0 bank_4wire) = [(4, HIGH), (5, LOW), (6, LOW), (7, HIGH)]"
  using stepMotor_four_wire_table [of bank_4wire 0] by (simp add: bank_4wire_fields)

text \<open>
  C10. When the phase argument is none of 0, 1, 2, 3, or when the motor's recorded pin
  count is neither 2 nor 4, \<^verbatim>\<open>stepMotor\<close> returns the state it was given: no pin is
  written and nothing else changes.
\<close>

theorem stepMotor_no_write:
  assumes "thisStep \<notin> {0, 1, 2, 3} \<or> (pin_count st motor \<noteq> 2 \<and> pin_count st motor \<noteq> 4)"
  shows "stepMotor thisStep motor st = st"
  using assms by (auto simp add: stepMotor_def Let_def)

theorem stepMotor_no_write_witness:
  "(4::int) \<notin> {0, 1, 2, 3} \<and> stepMotor 4 0 bank_2wire = bank_2wire
   \<and> (-1::int) \<notin> {0, 1, 2, 3} \<and> stepMotor (-1) 0 bank_4wire = bank_4wire
   \<and> pin_count blank 0 \<noteq> 2 \<and> pin_count blank 0 \<noteq> 4 \<and> stepMotor 2 0 blank = blank"
  using stepMotor_no_write [of 4 bank_2wire 0] stepMotor_no_write [of "-1" bank_4wire 0]
    stepMotor_no_write [of 2 blank 0]
  by (simp add: blank_def)

section \<open>Facts about the loops of step\<close>

lemma step_delay_stepMotor [simp]: "step_delay (stepMotor p m st) = step_delay st"
  by (simp add: stepMotor_def Let_def digitalWrite_def)

lemma motor_count_stepMotor [simp]: "motor_count (stepMotor p m st) = motor_count st"
  by (simp add: stepMotor_def Let_def digitalWrite_def)

lemma step_delay_step_motor_due [simp]: "step_delay (step_motor_due m st) = step_delay st"
  by (simp add: step_motor_due_def millis_def Let_def)

lemma motor_count_step_motor_due [simp]: "motor_count (step_motor_due m st) = motor_count st"
  by (simp add: step_motor_due_def millis_def Let_def)

lemma step_delay_step_pass [simp]: "step_delay (step_pass xs st) = step_delay st"
  by (induction xs arbitrary: st) simp_all

lemma motor_count_step_pass [simp]: "motor_count (step_pass xs st) = motor_count st"
  by (induction xs arbitrary: st) simp_all

text \<open>The first loop touches \<^verbatim>\<open>direction\<close> and the local array only.\<close>

lemma step_init_keeps:
  "step_delay (snd (step_init xs i sl st)) = step_delay st"
  "motor_count (snd (step_init xs i sl st)) = motor_count st"
  "pin_writes (snd (step_init xs i sl st)) = pin_writes st"
  by (induction xs arbitrary: i sl st) (simp_all add: Let_def)

lemma step_init_zeros:
  "\<forall>x\<in>set xs. x = 0 \<Longrightarrow> snd (step_init xs i sl st) = st"
  by (induction xs arbitrary: i sl st) (simp_all add: Let_def)

lemma step_init_cells:
  "fst (step_init xs i sl st) j =
     (if i \<le> j \<and> j < i + int (length xs) then \<bar>xs ! nat (j - i)\<bar> else sl j)"
proof (induction xs arbitrary: i sl st j)
  case Nil
  then show ?case by simp
next
  case (Cons x xs)
  show ?case
  proof (cases "j = i")
    case True
    then show ?thesis by (simp add: Let_def Cons.IH)
  next
    case False
    then have "i \<le> j \<Longrightarrow> nat (j - i) = Suc (nat (j - (i + 1)))"
      by simp
    with False show ?thesis
      by (auto simp add: Let_def Cons.IH)
  qed
qed

lemma stepsLeft_from_lower: "m \<le> stepsLeft_from m xs"
proof (induction xs arbitrary: m)
  case Nil
  then show ?case by simp
next
  case (Cons x xs)
  have "(if x > m then x else m) \<le> stepsLeft_from (if x > m then x else m) xs"
    by (rule Cons.IH)
  then show ?case by (simp split: if_splits)
qed

lemma stepsLeft_from_upper: "x \<in> set xs \<Longrightarrow> x \<le> stepsLeft_from m xs"
proof (induction xs arbitrary: m)
  case Nil
  then show ?case by simp
next
  case (Cons y ys)
  show ?case
  proof (cases "x = y")
    case True
    have "(if y > m then y else m) \<le> stepsLeft_from (if y > m then y else m) ys"
      by (rule stepsLeft_from_lower)
    with True show ?thesis by (simp split: if_splits)
  next
    case False
    with Cons.prems have "x \<in> set ys" by simp
    then show ?thesis by (simp add: Cons.IH)
  qed
qed

lemma stepsLeft_from_none: "\<forall>x\<in>set xs. x \<le> m \<Longrightarrow> stepsLeft_from m xs = m"
  by (induction xs arbitrary: m) simp_all

lemma stepsLeft_positive: "x \<in> set xs \<Longrightarrow> 0 < x \<Longrightarrow> 0 < stepsLeft xs"
  using stepsLeft_from_upper [of x xs 0] by (simp add: stepsLeft_def)

lemma stepsLeft_zero: "\<forall>x\<in>set xs. x \<le> 0 \<Longrightarrow> stepsLeft xs = 0"
  by (simp add: stepsLeft_def stepsLeft_from_none)

lemma length_elements [simp]: "length (elements a n) = nat n"
  by (simp add: elements_def)

lemma nth_elements: "k < nat n \<Longrightarrow> elements a n ! k = a (int k)"
  by (simp add: elements_def)

lemma set_elements: "set (elements a n) = a ` {0..n - 1}"
  by (simp add: elements_def)

lemma elements_step_init:
  "elements (fst (step_init xs 0 fresh st)) (int (length xs)) = map abs xs"
  by (rule nth_equalityI) (simp_all add: nth_elements step_init_cells)

text \<open>
  The outer loop hands \<^verbatim>\<open>steps_left\<close> on as it got it, so its test has the same
  outcome at every iteration: it can only be left at the moment it is entered.
\<close>

lemma step_loop_returns_only_at_zero:
  "step_loop sl xs st = Some st' \<Longrightarrow> \<not> 0 < stepsLeft (elements sl (motor_count st))"
proof (induction sl xs st st' rule: step_loop.raw_induct [rotated 1, consumes 1])
  case (1 loop sl xs st st')
  show ?case
  proof
    assume pos: "0 < stepsLeft (elements sl (motor_count st))"
    with 1(2) have "loop sl xs (step_pass xs st) = Some st'" by simp
    then have "\<not> 0 < stepsLeft (elements sl (motor_count (step_pass xs st)))" by (rule 1(1))
    with pos show False by simp
  qed
qed

lemma step_loop_diverges:
  "0 < stepsLeft (elements sl (motor_count st)) \<Longrightarrow> step_loop sl xs st = None"
  using step_loop_returns_only_at_zero [of sl xs st] by (cases "step_loop sl xs st") auto

lemma step_loop_at_zero:
  "stepsLeft (elements sl (motor_count st)) = 0 \<Longrightarrow> step_loop sl xs st = Some st"
  by (subst step_loop.simps) simp

lemma step_loop_keeps_step_delay:
  "step_loop sl xs st = Some st' \<Longrightarrow> step_delay st' = step_delay st"
proof (induction sl xs st st' rule: step_loop.raw_induct [rotated 1, consumes 1])
  case (1 loop sl xs st st')
  show ?case
  proof (cases "0 < stepsLeft (elements sl (motor_count st))")
    case True
    with 1(2) have "loop sl xs (step_pass xs st) = Some st'" by simp
    then have "step_delay st' = step_delay (step_pass xs st)" by (rule 1(1))
    then show ?thesis by simp
  next
    case False
    with 1(2) show ?thesis by simp
  qed
qed

lemma step_split: "step fresh xs st =
  step_loop (fst (step_init xs 0 fresh st)) xs (snd (step_init xs 0 fresh st))"
  by (simp add: step_def split: prod.splits)

lemma step_keeps_step_delay:
  "step fresh xs st = Some st' \<Longrightarrow> step_delay st' = step_delay st"
  by (auto simp add: step_split step_init_keeps dest: step_loop_keeps_step_delay)

lemma step_zeros_returns:
  assumes "int (length xs) = motor_count st" and "\<forall>x\<in>set xs. x = 0"
  shows "step fresh xs st = Some st"
proof -
  have "snd (step_init xs 0 fresh st) = st"
    using assms(2) by (rule step_init_zeros)
  moreover have "stepsLeft (elements (fst (step_init xs 0 fresh st)) (motor_count st)) = 0"
    using assms(2) assms(1) [symmetric] by (simp add: elements_step_init stepsLeft_zero)
  ultimately show ?thesis by (simp add: step_split step_loop_at_zero)
qed

text \<open>
  A non-zero entry above the least \<^verbatim>\<open>int\<close> leaves a positive counter, and the call
  cannot return.
\<close>

lemma step_nonzero_diverges:
  assumes "int (length xs) = motor_count st" and "x \<in> set xs" and "x \<noteq> 0"
    and "- 32768 < x"
  shows "step fresh xs st = None"
proof -
  from assms(2,3) have "\<bar>x\<bar> \<in> set (map abs xs)" "0 < \<bar>x\<bar>" by auto
  then have "0 < stepsLeft (map abs xs)" by (rule stepsLeft_positive)
  then have "0 < stepsLeft (elements (fst (step_init xs 0 fresh st))
      (motor_count (snd (step_init xs 0 fresh st))))"
    using assms(1) [symmetric] by (simp add: elements_step_init step_init_keeps)
  then show ?thesis by (simp add: step_split step_loop_diverges)
qed

lemma step_longer_zeros:
  assumes long: "motor_count st < int (length xs)" and zeros: "\<forall>x\<in>set xs. x = 0"
  shows "step fresh xs st = Some st"
proof -
  have "snd (step_init xs 0 fresh st) = st"
    using zeros by (rule step_init_zeros)
  moreover have "stepsLeft (elements (fst (step_init xs 0 fresh st)) (motor_count st)) = 0"
  proof (rule stepsLeft_zero, rule ballI)
    fix v assume "v \<in> set (elements (fst (step_init xs 0 fresh st)) (motor_count st))"
    then obtain j where j: "0 \<le> j" "j \<le> motor_count st - 1"
      and v: "v = fst (step_init xs 0 fresh st) j"
      by (auto simp add: set_elements)
    from j long have "nat j < length xs" by simp
    then have "xs ! nat j \<in> set xs" by simp
    with zeros have "xs ! nat j = 0" by blast
    with j long v show "v \<le> 0" by (simp add: step_init_cells)
  qed
  ultimately show ?thesis by (simp add: step_split step_loop_at_zero)
qed

section \<open>Facts about the speed\<close>

lemma c_div_nonneg: "0 \<le> a \<Longrightarrow> 0 < b \<Longrightarrow> c_div a b = a div b"
  by (simp add: c_div_def)


text \<open>Dividing by the steps and then by the speed is dividing by their product.\<close>

lemma two_divisions:
  fixes S R :: int
  assumes "0 < S" "0 < R"
  shows "c_div (c_div (60 * 1000) S) R = 60000 div (S * R)"
proof -
  have "c_div (60 * 1000) S = 60000 div S"
    using assms by (simp add: c_div_nonneg)
  moreover have "0 \<le> (60000::int) div S"
    using assms by (simp add: pos_imp_zdiv_nonneg_iff)
  ultimately have "c_div (c_div (60 * 1000) S) R = 60000 div S div R"
    using assms by (simp add: c_div_nonneg)
  also have "\<dots> = 60000 div (S * R)"
    using assms by (simp add: zdiv_zmult2_eq)
  finally show ?thesis .
qed

lemma setSpeed_other_motor:
  "setSpeed R m st = Inr st' \<Longrightarrow> m \<noteq> motor \<Longrightarrow> step_delay st' motor = step_delay st motor"
  by (auto simp add: setSpeed_def split: if_splits)

text \<open>
  What the statement of \<^verbatim>\<open>setSpeed\<close> computes once its index is supplied (the
  property C2 asks for; as written the statement names an index \<^verbatim>\<open>i\<close> that
  \<^verbatim>\<open>setSpeed\<close> does not have, and the array instead of its element). For a motor whose
  \<^verbatim>\<open>number_of_steps\<close> is \<open>S > 0\<close> and a speed \<open>R > 0\<close>, the call changes nothing but
  that motor's \<^verbatim>\<open>step_delay\<close> cell, which becomes 60000 / (S * R), the quotient rounded
  towards zero. The interval then stays: neither registration, nor \<^verbatim>\<open>stepMotor\<close>, nor
  a \<^verbatim>\<open>step\<close> that returns, nor a \<^verbatim>\<open>setSpeed\<close> for another motor changes it.
\<close>

lemma setSpeed_interval:
  assumes "0 < S" and "0 < R" and "number_of_steps st motor = S"
  shows "setSpeed R motor st =
           Inr (st\<lparr>step_delay := (step_delay st)(motor := 60000 div (S * R))\<rparr>)
       \<and> 60000 div (S * R) = c_div 60000 (S * R)
       \<and> step_delay (addMotor2 n a b st) = step_delay st
       \<and> step_delay (addMotor4 n a b c d st) = step_delay st
       \<and> step_delay (stepMotor p m st) = step_delay st
       \<and> (\<forall>st'. step fresh xs st = Some st' \<longrightarrow> step_delay st' = step_delay st)
       \<and> (\<forall>st'. m \<noteq> motor \<and> setSpeed R' m st = Inr st'
             \<longrightarrow> step_delay st' motor = step_delay st motor)"
proof -
  have "setSpeed R motor st =
      Inr (st\<lparr>step_delay := (step_delay st)(motor := 60000 div (S * R))\<rparr>)"
    using assms two_divisions [of S R] by (simp add: setSpeed_def)
  moreover have "60000 div (S * R) = c_div 60000 (S * R)"
    using assms by (simp add: c_div_nonneg)
  moreover have "\<forall>st'. step fresh xs st = Some st' \<longrightarrow> step_delay st' = step_delay st"
    by (simp add: step_keeps_step_delay)
  moreover have "\<forall>st'. m \<noteq> motor \<and> setSpeed R' m st = Inr st'
      \<longrightarrow> step_delay st' motor = step_delay st motor"
    by (blast dest: setSpeed_other_motor)
  ultimately show ?thesis
    by (simp only: addMotor2_simps addMotor4_simps step_delay_stepMotor simp_thms)
qed

text \<open>
  200 steps per revolution at 60 rpm give the interval 5; a \<^verbatim>\<open>step\<close> with nothing to
  do and a \<^verbatim>\<open>setSpeed\<close> for motor 1 leave motor 0's interval alone.
\<close>

lemma setSpeed_interval_example:
  "(0::int) < 200 \<and> (0::int) < 60 \<and> number_of_steps bank_two 0 = 200
   \<and> setSpeed 60 0 bank_two = Inr (bank_two\<lparr>step_delay := (step_delay bank_two)(0 := 5)\<rparr>)
   \<and> step zero_cells [0, 0] bank_two = Some bank_two
   \<and> (1::int) \<noteq> 0
   \<and> setSpeed 30 1 bank_two = Inr (bank_two\<lparr>step_delay := (step_delay bank_two)(1 := 10)\<rparr>)
   \<and> step_delay (bank_two\<lparr>step_delay := (step_delay bank_two)(1 := 10)\<rparr>) 0
       = step_delay bank_two 0"
proof -
  have S: "(0::int) < 200" and R: "(0::int) < 60" by simp_all
  have n: "number_of_steps bank_two 0 = 200" by (simp add: bank_two_fields)
  note t = setSpeed_interval [OF S R n, where m = 1 and fresh = zero_cells
      and xs = "[0, 0]" and R' = 30]
  from t have "setSpeed 60 0 bank_two =
      Inr (bank_two\<lparr>step_delay := (step_delay bank_two)(0 := 60000 div (200 * 60))\<rparr>)"
    by (rule conjunct1)
  then have a: "setSpeed 60 0 bank_two =
      Inr (bank_two\<lparr>step_delay := (step_delay bank_two)(0 := 5)\<rparr>)"
    by simp
  have b: "step zero_cells [0, 0] bank_two = Some bank_two"
    by (rule step_zeros_returns) (simp_all add: bank_two_fields)
  have c: "setSpeed 30 1 bank_two =
      Inr (bank_two\<lparr>step_delay := (step_delay bank_two)(1 := 10)\<rparr>)"
    by (simp add: setSpeed_def bank_two_fields c_div_def)
  from a b c n show ?thesis by simp
qed




section \<open>Facts about moving\<close>



text \<open>
  C1, at the two-motor bank and the move (+1, 0). The first loop records the counter 1
  for motor 0 and leaves its step index at 0; the call then never returns, so there is
  no completed call after which motor 0 is at index 1.
\<close>

theorem step_plus_one_never_completes:
  "step zero_cells [1, 0] bank_two = None
   \<and> step_number (snd (step_init [1, 0] 0 zero_cells bank_two)) 0 = 0"
proof -
  have "step zero_cells [1, 0] bank_two = None"
    by (rule step_nonzero_diverges [of _ _ 1]) (simp_all add: bank_two_fields)
  moreover have "snd (step_init [1, 0] 0 zero_cells bank_two)
      = bank_two\<lparr>direction := (direction bank_two)(0 := 1)\<rparr>"
    by (simp add: Let_def)
  moreover have "step_number bank_two 0 = 0"
    by (simp add: bank_two_def addMotor2_simps addMotor4_simps MultiStepper_simps blank_def)
  ultimately show ?thesis by simp
qed

text \<open>
  C5, as the code has it. \<^verbatim>\<open>step\<close> never compares the length of its argument with
  \<^verbatim>\<open>motor_count\<close> and has no failure to report. For a list of any length the first loop
  records the entries without writing a pin; a list longer than the motor count whose
  entries are all 0 makes the call return normally, with the state as it was.
\<close>

theorem step_wrong_length_not_rejected:
  "pin_writes (snd (step_init xs 0 fresh st)) = pin_writes st
   \<and> (motor_count st < int (length xs) \<and> (\<forall>x\<in>set xs. x = 0)
        \<longrightarrow> step fresh xs st = Some st)"
  by (simp add: step_init_keeps step_longer_zeros)

theorem step_wrong_length_not_rejected_witness:
  "motor_count bank_2wire < int (length [0, 0 :: int]) \<and> set [0, 0 :: int] = {0}
   \<and> step zero_cells [0, 0] bank_2wire = Some bank_2wire
   \<and> pin_writes (snd (step_init [0, 0] 0 zero_cells bank_2wire)) = pin_writes bank_2wire"
  using step_wrong_length_not_rejected [of "[0, 0]" zero_cells bank_2wire]
  by (simp add: bank_2wire_fields)

text \<open>
  Three step counts for a bank of two motors, and one step count for the same bank
  (where the second counter is a cell of the local array that was never written, here
  0): both calls return normally.
\<close>

theorem step_wrong_length_counterexample:
  "int (length [0, 0, 0 :: int]) \<noteq> motor_count bank_two
   \<and> step zero_cells [0, 0, 0] bank_two = Some bank_two
   \<and> int (length [0 :: int]) \<noteq> motor_count bank_two
   \<and> step zero_cells [0] bank_two = Some bank_two
   \<and> pin_writes bank_two = []"
proof -
  have long: "step zero_cells [0, 0, 0] bank_two = Some bank_two"
    by (rule step_longer_zeros) (simp_all add: bank_two_fields)
  have "stepsLeft (elements (fst (step_init [0] 0 zero_cells bank_two)) 2) = 0"
    by (rule stepsLeft_zero) (simp add: set_elements step_init_cells zero_cells_def)
  then have short: "step zero_cells [0] bank_two = Some bank_two"
    by (simp add: step_split step_loop_at_zero bank_two_fields Let_def)
  from long short show ?thesis
    by (simp add: bank_two_fields)
qed

end
